theory Spec2Isabelle
  imports Complex_Main
begin

section \<open>Calendar dates\<close>

text \<open>
  \<^verbatim>\<open>prepImages\<close> receives two \<^verbatim>\<open>datetime.date\<close> values and only ever subtracts
  them from each other or shifts them by a \<^verbatim>\<open>timedelta\<close> of whole days. A date is
  therefore represented by its proleptic Gregorian ordinal (what \<^verbatim>\<open>date.toordinal()\<close>
  returns: 0001-01-01 is day 1), a \<^verbatim>\<open>timedelta(days=n)\<close> by the integer \<open>n\<close>.
  The date type holds the ordinals \<open>1 .. MAXORDINAL\<close> (9999-12-31) only; arithmetic
  that leaves this range raises \<^verbatim>\<open>OverflowError\<close>.
\<close>

type_synonym date = int

datatype py_error = OverflowError | IndexError | KeyError | ValueError

definition MAXORDINAL :: int where
  "MAXORDINAL = 3652059"

definition valid_date :: "date \<Rightarrow> bool" where
  "valid_date d = (1 \<le> d \<and> d \<le> MAXORDINAL)"

definition is_leap :: "int \<Rightarrow> bool" where
  "is_leap year = (year mod 4 = 0 \<and> (year mod 100 \<noteq> 0 \<or> year mod 400 = 0))"

definition days_before_year :: "int \<Rightarrow> int" where
  "days_before_year year =
     (let y = year - 1 in y * 365 + y div 4 - y div 100 + y div 400)"

definition DAYS_BEFORE_MONTH :: "int list" where
  "DAYS_BEFORE_MONTH = [-1, 0, 31, 59, 90, 120, 151, 181, 212, 243, 273, 304, 334]"

definition days_before_month :: "int \<Rightarrow> nat \<Rightarrow> int" where
  "days_before_month year month =
     DAYS_BEFORE_MONTH ! month + (if month > 2 \<and> is_leap year then 1 else 0)"

text \<open>\<^verbatim>\<open>date(year, month, day).toordinal()\<close>, for a month in \<open>1 .. 12\<close>.\<close>

definition ymd2ord :: "int \<Rightarrow> nat \<Rightarrow> int \<Rightarrow> date" where
  "ymd2ord year month day = days_before_year year + days_before_month year month + day"

text \<open>\<^verbatim>\<open>date + timedelta(days=n)\<close> and \<^verbatim>\<open>date - timedelta(days=n)\<close>.\<close>

definition date_add :: "date \<Rightarrow> int \<Rightarrow> py_error + date" where
  "date_add d n =
     (let ord = d + n in if 0 < ord \<and> ord \<le> MAXORDINAL then Inr ord else Inl OverflowError)"

definition date_sub :: "date \<Rightarrow> int \<Rightarrow> py_error + date" where
  "date_sub d n = date_add d (- n)"

section \<open>Temporal window selection\<close>

text \<open>
  Lines 206-214 of \<^verbatim>\<open>prepImages\<close>: the three tiers on \<^verbatim>\<open>endDate - startDate\<close>. The
  result is the pair (\<^verbatim>\<open>shiftedDate\<close>, the updated \<^verbatim>\<open>endDate\<close>); in each branch the
  shifted date is computed first, then the end date is advanced.
\<close>

definition prepImages_dates :: "date \<Rightarrow> date \<Rightarrow> py_error + (date \<times> date)" where
  "prepImages_dates startDate endDate =
     (if endDate - startDate \<ge> 90 then
        (case date_sub endDate 60 of
           Inl e \<Rightarrow> Inl e
         | Inr shiftedDate \<Rightarrow>
             (case date_add endDate 20 of
                Inl e \<Rightarrow> Inl e
              | Inr endDate' \<Rightarrow> Inr (shiftedDate, endDate')))
      else if endDate - startDate \<ge> 60 then
        (case date_sub endDate 40 of
           Inl e \<Rightarrow> Inl e
         | Inr shiftedDate \<Rightarrow>
             (case date_add endDate 30 of
                Inl e \<Rightarrow> Inl e
              | Inr endDate' \<Rightarrow> Inr (shiftedDate, endDate')))
      else
        (case date_add endDate 1 of
           Inl e \<Rightarrow> Inl e
         | Inr shiftedDate \<Rightarrow>
             (case date_add endDate 60 of
                Inl e \<Rightarrow> Inl e
              | Inr endDate' \<Rightarrow> Inr (shiftedDate, endDate'))))"

section \<open>Per-pixel classification expressions\<close>

text \<open>
  The burn-severity expression of lines 250-255, on a numeric \<^verbatim>\<open>dNBR\<close> pixel: a chain
  of conditional expressions read left to right, with the final \<open>0\<close> as written.
\<close>

definition burnSeverity :: "real \<Rightarrow> int" where
  "burnSeverity dNBR =
     (if dNBR > 425 then 5
      else if dNBR > 225 then 4
      else if dNBR > 100 then 3
      else if dNBR > -60 then 2
      else if dNBR \<le> -60 then 1
      else 0)"

text \<open>
  The land-cover expression of lines 265-273 (and, identically, 281-289), on an integer
  \<^verbatim>\<open>landcover\<close> code.
\<close>

definition lc :: "int \<Rightarrow> int" where
  "lc landcover =
     (if landcover > 90 then 1
      else if landcover > 80 then 6
      else if landcover > 70 then 5
      else if landcover > 50 then 4
      else if landcover > 40 then 3
      else if landcover > 30 then 1
      else if landcover > 20 then 2
      else if landcover > 10 then 1
      else 0)"


section \<open>Raster export\<close>

text \<open>
  The working directory is the set of names \<^verbatim>\<open>os.listdir()\<close> returns. One call of
  \<^verbatim>\<open>ee_export_image\<close> (lines 312-366) ends in one of six ways, depending on what the
  imagery service and the downloaded archive do; these are the input of the model:
  \<^item> \<open>UrlFailed\<close>: \<^verbatim>\<open>image.getDownloadURL\<close> raises; the inner handler prints and returns.
  \<^item> \<open>RequestFailed\<close>: \<^verbatim>\<open>requests.get\<close> raises; the outer handler evaluates
    \<^verbatim>\<open>r.json()\<close> with \<^verbatim>\<open>r\<close> unbound, so the call ends with an exception.
  \<^item> \<open>BadStatus\<close>: the status code is not 200; the function returns.
  \<^item> \<open>StreamFailed raises\<close>: \<^verbatim>\<open>raster.zip\<close> was opened for writing and streaming the
    body failed; the outer handler's \<^verbatim>\<open>r.json()["error"]["message"]\<close> raises again
    (\<open>raises\<close>) or the function returns.
  \<^item> \<open>BadArchive ms\<close>: the zip was written, and unpacking raised after the members
    \<open>ms\<close> had been written; the handler prints, \<^verbatim>\<open>os.remove\<close> is not reached.
  \<^item> \<open>Extracted ms\<close>: the zip was written, its members \<open>ms\<close> were unpacked and the zip
    was removed.
  An error before \<^verbatim>\<open>raster.zip\<close> exists leaves the directory as it was and ends the call
  like \<open>UrlFailed\<close> (it returns) or \<open>RequestFailed\<close> (it raises).
\<close>

type_synonym disk = "string set"

datatype attempt =
    UrlFailed
  | RequestFailed
  | BadStatus
  | StreamFailed bool
  | BadArchive "string list"
  | Extracted "string list"

text \<open>
  The result is whether the call returned (\<open>True\<close>) or ended with an exception
  (\<open>False\<close>), and the directory it leaves.
\<close>

definition ee_export_image :: "attempt \<Rightarrow> disk \<Rightarrow> bool \<times> disk" where
  "ee_export_image a d =
     (case a of
        UrlFailed \<Rightarrow> (True, d)
      | RequestFailed \<Rightarrow> (False, d)
      | BadStatus \<Rightarrow> (True, d)
      | StreamFailed raises \<Rightarrow> (\<not> raises, insert ''raster.zip'' d)
      | BadArchive ms \<Rightarrow> (True, insert ''raster.zip'' d \<union> set ms)
      | Extracted ms \<Rightarrow> (True, (insert ''raster.zip'' d \<union> set ms) - {''raster.zip''}))"

text \<open>
  The retry loop of lines 382-391 over the candidate scales, each paired with what its
  attempt meets. An attempt that returns is followed by the directory check and the
  \<^verbatim>\<open>break\<close>; one that raises goes on to the next candidate. The loop returns the scales
  it tried, in order, and the directory.
\<close>

fun export_loop :: "(int \<times> attempt) list \<Rightarrow> disk \<Rightarrow> int list \<times> disk" where
  "export_loop [] d = ([], d)"
| "export_loop ((scale, a) # rest) d =
     (case ee_export_image a d of
        (True, d') \<Rightarrow>
          if ''raster.tif'' \<in> d' then ([scale], d')
          else (case export_loop rest d' of (tried, d'') \<Rightarrow> (scale # tried, d''))
      | (False, d') \<Rightarrow>
          (case export_loop rest d' of (tried, d'') \<Rightarrow> (scale # tried, d'')))"

datatype export_status = NoImageryAvailable | ExportExceededLimits | RasterReady

text \<open>
  \<^verbatim>\<open>downloadRaster\<close> up to the branch of line 393: \<open>bandsOK\<close> is whether
  \<^verbatim>\<open>image.bandNames().size().getInfo()\<close> returns. \<open>NoImageryAvailable\<close> is the stop after
  the message "No suitable Landsat images are available", \<open>ExportExceededLimits\<close> the
  stop after "Fire exceeds total request size"; with \<open>RasterReady\<close> the function goes
  on to convert \<^verbatim>\<open>raster.tif\<close>.
\<close>

definition downloadRaster :: "bool \<Rightarrow> (int \<times> attempt) list \<Rightarrow> disk
    \<Rightarrow> export_status \<times> int list \<times> disk" where
  "downloadRaster bandsOK imgScale d =
     (if \<not> bandsOK then (NoImageryAvailable, [], d)
      else
        (case export_loop imgScale d of
           (tried, d') \<Rightarrow>
             if ''raster.tif'' \<notin> d' then (ExportExceededLimits, tried, d')
             else (RasterReady, tried, d')))"



section \<open>Raster to pixel table\<close>

text \<open>
  The \<^verbatim>\<open>else\<close> branch of \<^verbatim>\<open>downloadRaster\<close> (lines 397-419). A pixel is a real number or
  \<open>None\<close> for NaN. \<^verbatim>\<open>rio.open("raster.tif")\<close> gives the height and the width, and
  \<^verbatim>\<open>img.read()\<close> the array of bands, each band a list of \<open>height\<close> rows of \<open>width\<close>
  pixels (the array is rectangular: \<open>wf_raster\<close>).
\<close>

type_synonym pixel = "real option"

record raster =
  height :: nat
  width :: nat
  bands :: "pixel list list list"


definition colNames :: "string list" where
  "colNames =
     [''SR_B1'', ''SR_B2'', ''SR_B3'', ''SR_B4'', ''SR_B5'', ''SR_B6'', ''SR_B7'',
      ''burnSeverity'', ''dNBR'', ''NDVI'', ''elevation'',
      ''percent_tree_cover'', ''landCover'', ''landCoverViz'']"

text \<open>\<^verbatim>\<open>ndarray.flatten()\<close> of a two-dimensional band: row-major.\<close>

definition flatten :: "'a list list \<Rightarrow> 'a list" where
  "flatten b = concat b"

text \<open>
  Lines 401-407: the loop over \<^verbatim>\<open>enumerate(colNames)\<close>; \<^verbatim>\<open>img[index]\<close> raises
  \<^verbatim>\<open>IndexError\<close> when the raster has no band of that index. The dictionary \<^verbatim>\<open>data\<close> is
  kept as an association list in insertion order, which is the column order of the
  data frame.
\<close>

definition read_columns :: "raster \<Rightarrow> py_error + (string \<times> pixel list) list" where
  "read_columns img =
     (if length (bands img) < length colNames then Inl IndexError
      else Inr (map (\<lambda>(index, val). (val, flatten (bands img ! index)))
                  (enumerate 0 colNames)))"

text \<open>\<^verbatim>\<open>df.mean()\<close> of one column: NaN is skipped; a column without a number has mean NaN.\<close>

definition present :: "pixel list \<Rightarrow> real list" where
  "present c = List.map_filter (\<lambda>p. p) c"

definition mean :: "pixel list \<Rightarrow> pixel" where
  "mean c =
     (if present c = [] then None
      else Some (sum_list (present c) / real (length (present c))))"

definition fillna :: "pixel \<Rightarrow> pixel list \<Rightarrow> pixel list" where
  "fillna m c = map (\<lambda>p. case p of None \<Rightarrow> m | Some v \<Rightarrow> Some v) c"

text \<open>
  \<^verbatim>\<open>round(2)\<close>: to two decimals, a tie going to the even neighbour; NaN stays NaN. The
  arithmetic is exact here, where the source computes in binary floating point.
\<close>

definition rint :: "real \<Rightarrow> int" where
  "rint x =
     (let f = \<lfloor>x\<rfloor>; r = x - of_int f
      in if r < 1 / 2 then f else if r > 1 / 2 then f + 1 else if even f then f else f + 1)"

definition round2 :: "real \<Rightarrow> real" where
  "round2 x = of_int (rint (x * 100)) / 100"

text \<open>Line 411: \<^verbatim>\<open>df.fillna(df.mean()).reset_index(drop=True).round(2)\<close>.\<close>

definition impute :: "(string \<times> pixel list) list \<Rightarrow> (string \<times> pixel list) list" where
  "impute data = map (\<lambda>(name, c). (name, map (map_option round2) (fillna (mean c) c))) data"

text \<open>
  Lines 414-417. \<^verbatim>\<open>df["burnSeverity"] <= 0\<close> is false on NaN. The global random source
  is the sequence \<open>rng\<close> of its raw draws: \<^verbatim>\<open>random.sample(pop, k=1)[0]\<close> is the element
  of \<open>pop\<close> at a random index below its length, here the draw reduced modulo the length.
  The values are drawn first, one per masked row, then assigned to the masked rows in
  row order.
\<close>

definition le0 :: "pixel \<Rightarrow> bool" where
  "le0 p = (case p of None \<Rightarrow> False | Some v \<Rightarrow> v \<le> 0)"

definition sample1 :: "int list \<Rightarrow> nat \<Rightarrow> int" where
  "sample1 pop j = pop ! (j mod length pop)"

definition imputeValues :: "(nat \<Rightarrow> nat) \<Rightarrow> nat \<Rightarrow> int list" where
  "imputeValues rng n = map (\<lambda>i. sample1 [1, 2, 3, 4, 5] (rng i)) [0..<n]"

fun loc_assign :: "pixel list \<Rightarrow> int list \<Rightarrow> pixel list" where
  "loc_assign [] vs = []"
| "loc_assign (p # ps) vs =
     (if le0 p then
        (case vs of
           [] \<Rightarrow> p # ps
         | v # vs' \<Rightarrow> Some (of_int v) # loc_assign ps vs')
      else p # loc_assign ps vs)"

definition repair :: "(nat \<Rightarrow> nat) \<Rightarrow> (string \<times> pixel list) list
    \<Rightarrow> py_error + (string \<times> pixel list) list" where
  "repair rng df =
     (case map_of df ''burnSeverity'' of
        None \<Rightarrow> Inl KeyError
      | Some bs \<Rightarrow>
          (let num = length (filter le0 bs)
           in if num > 0 then
                Inr (map (\<lambda>(name, c).
                       if name = ''burnSeverity''
                       then (name, loc_assign c (imputeValues rng num))
                       else (name, c)) df)
              else Inr df))"

text \<open>
  Line 419, \<^verbatim>\<open>df.astype(int)\<close>: a number is truncated towards zero, NaN raises
  \<^verbatim>\<open>ValueError\<close>.
\<close>

definition trunc :: "real \<Rightarrow> int" where
  "trunc x = (if x \<ge> 0 then \<lfloor>x\<rfloor> else \<lceil>x\<rceil>)"

fun astype_int :: "pixel list \<Rightarrow> py_error + int list" where
  "astype_int [] = Inr []"
| "astype_int (None # ps) = Inl ValueError"
| "astype_int (Some v # ps) =
     (case astype_int ps of Inl e \<Rightarrow> Inl e | Inr vs \<Rightarrow> Inr (trunc v # vs))"

fun astype_int_df :: "(string \<times> pixel list) list \<Rightarrow> py_error + (string \<times> int list) list" where
  "astype_int_df [] = Inr []"
| "astype_int_df ((name, c) # cols) =
     (case astype_int c of
        Inl e \<Rightarrow> Inl e
      | Inr vs \<Rightarrow>
          (case astype_int_df cols of Inl e \<Rightarrow> Inl e | Inr t \<Rightarrow> Inr ((name, vs) # t)))"

text \<open>The conversion as a whole: the table written to \<^verbatim>\<open>raster.parquet\<close>, or the exception.\<close>

definition downloadRaster_table :: "(nat \<Rightarrow> nat) \<Rightarrow> raster
    \<Rightarrow> py_error + (string \<times> int list) list" where
  "downloadRaster_table rng img =
     (case read_columns img of
        Inl e \<Rightarrow> Inl e
      | Inr data \<Rightarrow>
          (case repair rng (impute data) of
             Inl e \<Rightarrow> Inl e
           | Inr df \<Rightarrow> astype_int_df df))"

text \<open>
  The burn-severity column after imputation and rounding (before the repair), and the
  number of its pixels the repair replaces.
\<close>

definition burn_imputed :: "raster \<Rightarrow> pixel list" where
  "burn_imputed img =
     (case read_columns img of
        Inl e \<Rightarrow> []
      | Inr data \<Rightarrow> (case map_of (impute data) ''burnSeverity'' of None \<Rightarrow> [] | Some bs \<Rightarrow> bs))"

definition num_repaired :: "raster \<Rightarrow> nat" where
  "num_repaired img = length (filter le0 (burn_imputed img))"

text \<open>A periodic sequence of draws, to write down concrete random sources.\<close>

definition draws_from :: "nat list \<Rightarrow> nat \<Rightarrow> nat" where
  "draws_from ds i = ds ! (i mod length ds)"


text \<open>
  A raster of one row whose burn-severity band holds the given pixels and whose other
  thirteen bands are zero, to write down concrete rasters.
\<close>

definition single_row :: "pixel list \<Rightarrow> raster" where
  "single_row bs =
     (let z = [map (\<lambda>p. Some 0) bs]
      in \<lparr>height = 1, width = length bs,
          bands = [z, z, z, z, z, z, z, [bs], z, z, z, z, z, z]\<rparr>)"

section \<open>Band assembly\<close>

text \<open>
  Lines 298-305 of \<^verbatim>\<open>prepImages\<close>, on band names: an image is the list of its band
  names in band order. The post-fire composite is the mean of scenes of the collection
  \<^verbatim>\<open>LANDSAT/LC08/C02/T1_L2\<close> and has that collection's bands, listed here from the
  data catalogue. \<^verbatim>\<open>select('SR_B.')\<close> keeps the bands whose whole name matches the
  regular expression, in band order. \<^verbatim>\<open>addBands\<close> appends a band; when a band of that
  name is already present the service renames the new one, which is left out of the
  model (\<open>None\<close>). The appended images carry the names given by \<^verbatim>\<open>rename\<close> (lines 248,
  256, 274, 291, 294; multiplying by a constant keeps the name) or \<^verbatim>\<open>select\<close> (lines
  259, 303).
\<close>

definition LC08_C02_T1_L2 :: "string list" where
  "LC08_C02_T1_L2 =
     [''SR_B1'', ''SR_B2'', ''SR_B3'', ''SR_B4'', ''SR_B5'', ''SR_B6'', ''SR_B7'',
      ''SR_QA_AEROSOL'', ''ST_B10'', ''ST_ATRAN'', ''ST_CDIST'', ''ST_DRAD'', ''ST_EMIS'',
      ''ST_EMSD'', ''ST_QA'', ''ST_TRAD'', ''ST_URAD'', ''QA_PIXEL'', ''QA_RADSAT'']"

definition matches_SR_B :: "string \<Rightarrow> bool" where
  "matches_SR_B name = (length name = 5 \<and> take 4 name = ''SR_B'')"

definition select_SR_B :: "string list \<Rightarrow> string list" where
  "select_SR_B img = filter matches_SR_B img"

definition addBands :: "string list \<Rightarrow> string \<Rightarrow> string list option" where
  "addBands img name = (if name \<in> set img then None else Some (img @ [name]))"

definition prepImages_bands :: "string list \<Rightarrow> string list option" where
  "prepImages_bands postFireImage =
     Option.bind (addBands (select_SR_B postFireImage) ''burnSeverity'') (\<lambda>b1.
     Option.bind (addBands b1 ''dNBR'') (\<lambda>b2.
     Option.bind (addBands b2 ''NDVI'') (\<lambda>b3.
     Option.bind (addBands b3 ''elevation'') (\<lambda>b4.
     Option.bind (addBands b4 ''percent_tree_cover'') (\<lambda>b5.
     Option.bind (addBands b5 ''landCover'') (\<lambda>b6.
     addBands b6 ''landCoverViz''))))))"


section \<open>Metrics\<close>

text \<open>
  \<^verbatim>\<open>modelMetrics\<close> (lines 504-538). \<^verbatim>\<open>confusion_matrix(labels, predictions)\<close> is the
  scikit-learn function called without its \<^verbatim>\<open>labels\<close> argument: the classes of the
  matrix are then the sorted distinct values that occur in either sequence, the rows
  are the reference classes and the columns the predicted ones; sequences of different
  length raise \<^verbatim>\<open>ValueError\<close>.
\<close>

definition unique_labels :: "int list \<Rightarrow> int list \<Rightarrow> int list" where
  "unique_labels y_true y_pred = sort (remdups (y_true @ y_pred))"

definition confusion_matrix :: "int list \<Rightarrow> int list \<Rightarrow> py_error + int list list" where
  "confusion_matrix y_true y_pred =
     (if length y_true \<noteq> length y_pred then Inl ValueError
      else
        (let ls = unique_labels y_true y_pred
         in Inr (map (\<lambda>t. map (\<lambda>p. int (length (filter (\<lambda>(a, b). a = t \<and> b = p)
                                                  (zip y_true y_pred)))) ls) ls)))"

text \<open>\<^verbatim>\<open>np.sum(cm, axis = 0)\<close>, \<^verbatim>\<open>np.sum(cm, axis = 1)\<close> and \<^verbatim>\<open>np.diag(cm)\<close>.\<close>

definition sum_axis0 :: "int list list \<Rightarrow> int list" where
  "sum_axis0 cm = map (\<lambda>j. sum_list (map (\<lambda>row. row ! j) cm)) [0..<length cm]"

definition sum_axis1 :: "int list list \<Rightarrow> int list" where
  "sum_axis1 cm = map sum_list cm"

definition diag :: "int list list \<Rightarrow> int list" where
  "diag cm = map (\<lambda>i. cm ! i ! i) [0..<length cm]"

text \<open>
  Element-wise arithmetic on floating-point arrays, \<open>None\<close> for NaN: NaN propagates,
  and \<open>0 / 0\<close> is NaN. (A non-zero number over zero, which is infinite, does not occur:
  a diagonal entry is at most its row and column sum, and a product of two ratios in
  \<open>[0, 1]\<close> is zero when their sum is.)
\<close>

definition np_divide :: "real option \<Rightarrow> real option \<Rightarrow> real option" where
  "np_divide a b =
     (case (a, b) of
        (Some x, Some y) \<Rightarrow> if y = 0 then None else Some (x / y)
      | _ \<Rightarrow> None)"

definition np_times :: "real option \<Rightarrow> real option \<Rightarrow> real option" where
  "np_times a b = (case (a, b) of (Some x, Some y) \<Rightarrow> Some (x * y) | _ \<Rightarrow> None)"

definition np_plus :: "real option \<Rightarrow> real option \<Rightarrow> real option" where
  "np_plus a b = (case (a, b) of (Some x, Some y) \<Rightarrow> Some (x + y) | _ \<Rightarrow> None)"

text \<open>\<^verbatim>\<open>np.round(100 * x, 2)\<close>.\<close>

definition percent :: "real option \<Rightarrow> real option" where
  "percent x = map_option (\<lambda>v. round2 (100 * v)) x"

text \<open>\<^verbatim>\<open>fillna(0)\<close> on one cell.\<close>

definition fillna0 :: "real option \<Rightarrow> real" where
  "fillna0 x = (case x of None \<Rightarrow> 0 | Some v \<Rightarrow> v)"

text \<open>\<^verbatim>\<open>bsMap[i] for i in range(1, k + 1)\<close>: a key above 5 raises \<^verbatim>\<open>KeyError\<close>.\<close>

definition bsMap :: "(nat \<times> string) list" where
  "bsMap = [(1, ''Vegetation Growth''), (2, ''Unburned''), (3, ''Low''), (4, ''Moderate''),
            (5, ''High'')]"

fun bsMap_names :: "nat list \<Rightarrow> py_error + string list" where
  "bsMap_names [] = Inr []"
| "bsMap_names (i # rest) =
     (case map_of bsMap i of
        None \<Rightarrow> Inl KeyError
      | Some name \<Rightarrow>
          (case bsMap_names rest of Inl e \<Rightarrow> Inl e | Inr names \<Rightarrow> Inr (name # names)))"

text \<open>
  The two data frames returned, after \<^verbatim>\<open>fillna(0)\<close>: the confusion matrix with its
  totals row and column (the corner cell, \<^verbatim>\<open>None\<close> in \<^verbatim>\<open>actualTotal\<close>, filled with 0),
  and one metrics row per class of the matrix.
\<close>

record confusion_frame =
  cm_columns :: "string list"
  cm_index :: "string list"
  cm_cells :: "int list list"

record metrics_row =
  row_name :: string
  precision_pct :: real
  recall_pct :: real
  f1_pct :: real

definition modelMetrics :: "int list \<Rightarrow> int list
    \<Rightarrow> py_error + (confusion_frame \<times> metrics_row list)" where
  "modelMetrics labels predictions =
     (case confusion_matrix labels predictions of
        Inl e \<Rightarrow> Inl e
      | Inr cm \<Rightarrow>
          (let predictedTotal = sum_axis0 cm;
               actualTotal = sum_axis1 cm;
               precision = map2 (\<lambda>d s. np_divide (Some (real_of_int d)) (Some (real_of_int s)))
                             (diag cm) (sum_axis0 cm);
               recall = map2 (\<lambda>d s. np_divide (Some (real_of_int d)) (Some (real_of_int s)))
                             (diag cm) (sum_axis1 cm);
               f1 = map2 (\<lambda>p r. percent (np_divide (np_times (Some 2) (np_times p r))
                                                   (np_plus p r)))
                      precision recall;
               cells = map2 (\<lambda>row total. row @ [total]) cm actualTotal
                         @ [predictedTotal @ [0]]
           in (case bsMap_names [1..<length cm + 1] of
                 Inl e \<Rightarrow> Inl e
               | Inr names \<Rightarrow>
                   Inr (\<lparr>cm_columns = names @ [''Predicted Total''],
                         cm_index = names @ [''Actual Total''],
                         cm_cells = cells\<rparr>,
                        map (\<lambda>(name, p, r, f).
                               \<lparr>row_name = name,
                                precision_pct = fillna0 (percent p),
                                recall_pct = fillna0 (percent r),
                                f1_pct = fillna0 f\<rparr>)
                          (zip names (zip precision (zip recall f1)))))))"


section \<open>Properties of the classification expressions\<close>

text \<open>
  C1. The burn-severity classifier is total on real dNBR and first-match-wins: every
  real value gets exactly one class in 1..5, namely 5 above 425, 4 in (225, 425],
  3 in (100, 225], 2 in (-60, 100] and 1 at or below -60; the trailing 0 is never
  returned.
\<close>

theorem burnSeverity_total:
  "burnSeverity d \<in> {1, 2, 3, 4, 5}
   \<and> burnSeverity d \<noteq> 0
   \<and> burnSeverity d =
       (if d > 425 then 5 else if d > 225 then 4 else if d > 100 then 3
        else if d > -60 then 2 else 1)
   \<and> (burnSeverity d = 5 \<longleftrightarrow> d > 425)
   \<and> (burnSeverity d = 4 \<longleftrightarrow> 225 < d \<and> d \<le> 425)
   \<and> (burnSeverity d = 3 \<longleftrightarrow> 100 < d \<and> d \<le> 225)
   \<and> (burnSeverity d = 2 \<longleftrightarrow> -60 < d \<and> d \<le> 100)
   \<and> (burnSeverity d = 1 \<longleftrightarrow> d \<le> -60)"
  by (simp add: burnSeverity_def)

text \<open>
  C7 (as stated, refuted). Forest (code 42) is classified 3, and classifying 3 again
  gives 0: the expression is not idempotent.
\<close>

theorem lc_not_idempotent: "lc (lc 42) \<noteq> lc 42"
  by (simp add: lc_def)

text \<open>
  C7 (amended). The land-cover expression is total with classes in 0..6; applied to an
  already classified value it always returns 0, so a second application is a no-op
  exactly on the inputs of class 0 (the codes not above 10).
\<close>

theorem lc_twice:
  "lc x \<in> {0, 1, 2, 3, 4, 5, 6}
   \<and> lc (lc x) = 0
   \<and> (lc (lc x) = lc x \<longleftrightarrow> x \<le> 10)"
  by (simp add: lc_def)

section \<open>Properties of the temporal window\<close>

lemma ymd2ord_max: "ymd2ord 9999 12 31 = MAXORDINAL"
  by (simp add: ymd2ord_def days_before_year_def days_before_month_def
      DAYS_BEFORE_MONTH_def is_leap_def MAXORDINAL_def)

lemmas calendar_defs =
  ymd2ord_def days_before_year_def days_before_month_def DAYS_BEFORE_MONTH_def is_leap_def

lemmas window_defs =
  prepImages_dates_def date_add_def date_sub_def valid_date_def MAXORDINAL_def

text \<open>
  C3 (as stated, refuted). For start 2020-08-01 and end 2020-08-20 the selector does not
  return the adjusted end 2020-09-19 the claim gives: 20 August plus 60 days is
  19 October. And not every pair of dates has a tiered result: for start 9999-12-01 and
  end 9999-12-31 the adjusted end would lie beyond the last date, and the selector
  raises.
\<close>

theorem window_claim_fails:
  "prepImages_dates (ymd2ord 2020 8 1) (ymd2ord 2020 8 20)
     \<noteq> Inr (ymd2ord 2020 8 21, ymd2ord 2020 9 19)
   \<and> prepImages_dates (ymd2ord 9999 12 1) (ymd2ord 9999 12 31) = Inl OverflowError"
  by (simp add: window_defs calendar_defs)

text \<open>
  C3 (amended). For every pair of dates the selector returns exactly the tiered
  result, as long as the adjusted end is still a date (not after 9999-12-31; otherwise
  the date arithmetic raises): with d = end - start, d \<ge> 90 gives (end - 60, end + 20),
  60 \<le> d < 90 gives (end - 40, end + 30), d < 60 gives (end + 1, end + 60). For start
  2020-08-01 and end 2020-08-20 the result is (2020-08-21, 2020-10-19).
\<close>

theorem window_tiers:
  assumes "valid_date s" and "valid_date e"
  shows "prepImages_dates s e =
           (if e - s \<ge> 90 then
              (if e + 20 \<le> MAXORDINAL then Inr (e - 60, e + 20) else Inl OverflowError)
            else if e - s \<ge> 60 then
              (if e + 30 \<le> MAXORDINAL then Inr (e - 40, e + 30) else Inl OverflowError)
            else
              (if e + 60 \<le> MAXORDINAL then Inr (e + 1, e + 60) else Inl OverflowError))
         \<and> prepImages_dates (ymd2ord 2020 8 1) (ymd2ord 2020 8 20)
             = Inr (ymd2ord 2020 8 21, ymd2ord 2020 10 19)"
proof
  show "prepImages_dates s e =
           (if e - s \<ge> 90 then
              (if e + 20 \<le> MAXORDINAL then Inr (e - 60, e + 20) else Inl OverflowError)
            else if e - s \<ge> 60 then
              (if e + 30 \<le> MAXORDINAL then Inr (e - 40, e + 30) else Inl OverflowError)
            else
              (if e + 60 \<le> MAXORDINAL then Inr (e + 1, e + 60) else Inl OverflowError))"
    using assms by (auto simp add: window_defs Let_def)
next
  show "prepImages_dates (ymd2ord 2020 8 1) (ymd2ord 2020 8 20)
          = Inr (ymd2ord 2020 8 21, ymd2ord 2020 10 19)"
    by (simp add: window_defs calendar_defs)
qed

theorem window_tiers_witness:
  "valid_date (ymd2ord 2020 5 1) \<and> valid_date (ymd2ord 2020 8 20)
   \<and> prepImages_dates (ymd2ord 2020 5 1) (ymd2ord 2020 8 20)
       = Inr (ymd2ord 2020 6 21, ymd2ord 2020 9 9)
   \<and> prepImages_dates (ymd2ord 2020 6 15) (ymd2ord 2020 8 20)
       = Inr (ymd2ord 2020 7 11, ymd2ord 2020 9 19)"
proof -
  have v1: "valid_date (ymd2ord 2020 5 1)" by (simp add: valid_date_def MAXORDINAL_def calendar_defs)
  have v2: "valid_date (ymd2ord 2020 8 20)" by (simp add: valid_date_def MAXORDINAL_def calendar_defs)
  have v3: "valid_date (ymd2ord 2020 6 15)" by (simp add: valid_date_def MAXORDINAL_def calendar_defs)
  have a: "prepImages_dates (ymd2ord 2020 5 1) (ymd2ord 2020 8 20)
             = Inr (ymd2ord 2020 6 21, ymd2ord 2020 9 9)"
    using window_tiers [OF v1 v2] by (simp add: MAXORDINAL_def calendar_defs)
  have b: "prepImages_dates (ymd2ord 2020 6 15) (ymd2ord 2020 8 20)
             = Inr (ymd2ord 2020 7 11, ymd2ord 2020 9 19)"
    using window_tiers [OF v3 v2] by (simp add: MAXORDINAL_def calendar_defs)
  show ?thesis using v1 v2 a b by simp
qed

text \<open>
  C4 (as stated, refuted). With start 2020-08-01 and end 2020-08-20 (start < end) the
  shifted start is 2020-08-21, which is after the nominal end.
\<close>

theorem shifted_start_after_end:
  "ymd2ord 2020 8 1 < ymd2ord 2020 8 20
   \<and> prepImages_dates (ymd2ord 2020 8 1) (ymd2ord 2020 8 20)
       = Inr (ymd2ord 2020 8 21, ymd2ord 2020 10 19)
   \<and> \<not> ymd2ord 2020 8 21 \<le> ymd2ord 2020 8 20"
  by (simp add: window_defs calendar_defs)

text \<open>
  C4 (amended). Whenever start < end and the selector returns a window, the shifted
  start is not before the start, at most one day after the nominal end, and not after
  the adjusted end; it is at or before the nominal end exactly when at least 60 days
  have elapsed (below 60 days it is the day after the end).
\<close>

theorem shifted_start_bounds:
  assumes "s < e" and "prepImages_dates s e = Inr (shifted, adjusted)"
  shows "s \<le> shifted \<and> shifted \<le> e + 1 \<and> shifted \<le> adjusted
         \<and> (shifted \<le> e \<longleftrightarrow> 60 \<le> e - s)
         \<and> (e - s < 60 \<longleftrightarrow> shifted = e + 1)"
  using assms
  by (auto simp add: prepImages_dates_def date_add_def date_sub_def Let_def
      split: if_splits)

theorem shifted_start_bounds_witness:
  "ymd2ord 2020 5 1 < ymd2ord 2020 8 20
   \<and> prepImages_dates (ymd2ord 2020 5 1) (ymd2ord 2020 8 20)
       = Inr (ymd2ord 2020 6 21, ymd2ord 2020 9 9)
   \<and> ymd2ord 2020 5 1 \<le> ymd2ord 2020 6 21
   \<and> ymd2ord 2020 6 21 \<le> ymd2ord 2020 8 20"
proof -
  have lt: "ymd2ord 2020 5 1 < ymd2ord 2020 8 20" by (simp add: calendar_defs)
  have r: "prepImages_dates (ymd2ord 2020 5 1) (ymd2ord 2020 8 20)
             = Inr (ymd2ord 2020 6 21, ymd2ord 2020 9 9)"
    by (simp add: window_defs calendar_defs)
  have d: "(60::int) \<le> ymd2ord 2020 8 20 - ymd2ord 2020 5 1" by (simp add: calendar_defs)
  show ?thesis using lt r d shifted_start_bounds [OF lt r] by simp
qed

section \<open>Properties of the raster export\<close>








text \<open>
  C9 (the code against the claim). A single candidate whose archive downloads but does
  not unpack: the failed attempt leaves \<^verbatim>\<open>raster.zip\<close> in the directory, and it is still
  there when the exporter stops with ExportExceededLimits. Only a later attempt that
  downloads again overwrites it, and only a successful unpacking removes it.
\<close>

theorem failed_extraction_leaves_zip:
  "ee_export_image (BadArchive []) {} = (True, {''raster.zip''})
   \<and> downloadRaster True [(30, BadArchive [])] {}
       = (ExportExceededLimits, [30], {''raster.zip''})
   \<and> downloadRaster True [(30, BadArchive []), (60, UrlFailed), (90, BadStatus)] {}
       = (ExportExceededLimits, [30, 60, 90], {''raster.zip''})
   \<and> downloadRaster True
        [(30, BadArchive []), (60, BadArchive []), (90, Extracted [''raster.tif''])] {}
       = (RasterReady, [30, 60, 90], {''raster.tif''})"
  by (auto simp add: downloadRaster_def ee_export_image_def)


section \<open>Properties of the pixel table\<close>

subsection \<open>Reading the bands\<close>

lemma length_colNames: "length colNames = 14"
  by (simp add: colNames_def)

lemma distinct_colNames: "distinct colNames"
  by (simp add: colNames_def)

lemma colNames_burn: "colNames ! 7 = ''burnSeverity''"
  by (simp add: colNames_def)

lemma read_columns_Inr:
  assumes "read_columns img = Inr data"
  shows "map fst data = colNames"
    and "length data = 14"
    and "14 \<le> length (bands img)"
    and "\<And>i. i < 14 \<Longrightarrow> data ! i = (colNames ! i, flatten (bands img ! i))"
proof -
  from assms have len: "\<not> length (bands img) < length colNames"
    and d: "data = map (\<lambda>(index, val). (val, flatten (bands img ! index))) (enumerate 0 colNames)"
    by (auto simp add: read_columns_def split: if_splits)
  have "map fst data = map snd (enumerate 0 colNames)"
    unfolding d by (simp add: case_prod_beta comp_def)
  then show "map fst data = colNames" by simp
  show "length data = 14" unfolding d by (simp add: length_colNames)
  show "14 \<le> length (bands img)" using len by (simp add: length_colNames)
  fix i :: nat
  assume "i < 14"
  then show "data ! i = (colNames ! i, flatten (bands img ! i))"
    unfolding d by (simp add: length_colNames nth_enumerate_eq)
qed



subsection \<open>Imputation\<close>


lemma impute_names: "map fst (impute data) = map fst data"
  by (simp add: impute_def case_prod_beta comp_def)

subsection \<open>The repair of the burn-severity column\<close>


lemma loc_assign_Nil: "loc_assign c [] = c"
  by (induction c) auto

lemma le0_not_None: "le0 p \<Longrightarrow> p \<noteq> None"
  by (cases p) (auto simp add: le0_def)

lemma loc_assign_None: "None \<in> set (loc_assign c vs) \<longleftrightarrow> None \<in> set c"
  by (induction c arbitrary: vs) (auto split: list.splits dest: le0_not_None)






lemma map_of_map_keyed:
  "map_of (map (\<lambda>(n, c). (n, f n c)) xs) k = map_option (f k) (map_of xs k)"
  by (induction xs) auto

lemma repair_eq:
  assumes "map_of df ''burnSeverity'' = Some bs"
  shows "repair rng df =
           Inr (map (\<lambda>(name, c).
                  (name, if name = ''burnSeverity''
                         then loc_assign c (imputeValues rng (length (filter le0 bs)))
                         else c)) df)"
proof (cases "length (filter le0 bs) > 0")
  case True
  have "(\<lambda>(name, c). if name = ''burnSeverity''
            then (name, loc_assign c (imputeValues rng (length (filter le0 bs))))
            else (name, c))
        = (\<lambda>(name, c). (name, if name = ''burnSeverity''
            then loc_assign c (imputeValues rng (length (filter le0 bs)))
            else c))"
    by (simp add: fun_eq_iff)
  then show ?thesis using assms True by (simp add: repair_def)
next
  case False
  then have z: "filter le0 bs = []" by simp
  have m: "map (\<lambda>(name, c). (name, if name = ''burnSeverity''
            then loc_assign c (imputeValues rng (length (filter le0 bs))) else c)) df = df"
    by (rule map_idI) (auto simp add: z imputeValues_def loc_assign_Nil)
  show ?thesis using assms z by (simp add: repair_def m)
qed

subsection \<open>The integer cast\<close>

lemma astype_int_eq:
  "astype_int c = (if None \<in> set c then Inl ValueError else Inr (map (\<lambda>p. trunc (the p)) c))"
proof (induction c)
  case Nil
  then show ?case by simp
next
  case (Cons p ps)
  then show ?case by (cases p) auto
qed

lemma astype_int_df_eq:
  "astype_int_df df =
     (if \<exists>c \<in> set (map snd df). None \<in> set c then Inl ValueError
      else Inr (map (\<lambda>(n, c). (n, map (\<lambda>p. trunc (the p)) c)) df))"
proof (induction df)
  case Nil
  then show ?case by simp
next
  case (Cons x df)
  obtain n c where x: "x = (n, c)" by (cases x)
  show ?case using Cons x by (auto simp add: astype_int_eq)
qed



subsection \<open>The conversion as a whole\<close>

lemma burn_in_colNames: "''burnSeverity'' \<in> set colNames"
  by (simp add: colNames_def)

lemma burn_imputed_eq:
  assumes "read_columns img = Inr data"
  shows "map_of (impute data) ''burnSeverity'' = Some (burn_imputed img)"
proof -
  have "map fst (impute data) = colNames"
    using read_columns_Inr(1) [OF assms] by (simp add: impute_names)
  then have "''burnSeverity'' \<in> fst ` set (impute data)"
    using burn_in_colNames by (metis set_map)
  then obtain bs where "map_of (impute data) ''burnSeverity'' = Some bs"
    by (cases "map_of (impute data) ''burnSeverity''") (auto simp add: map_of_eq_None_iff)
  then show ?thesis using assms by (simp add: burn_imputed_def)
qed

lemma table_eq:
  assumes "read_columns img = Inr data"
  shows "downloadRaster_table rng img =
     (if \<exists>c \<in> set (map snd (impute data)). None \<in> set c then Inl ValueError
      else Inr (map (\<lambda>(n, c).
                  (n, map (\<lambda>p. trunc (the p))
                        (if n = ''burnSeverity''
                         then loc_assign c (imputeValues rng (num_repaired img))
                         else c))) (impute data)))"
proof -
  let ?g = "\<lambda>(name :: string) c. if name = ''burnSeverity''
              then loc_assign c (imputeValues rng (num_repaired img)) else c"
  let ?df = "map (\<lambda>(name, c). (name, ?g name c)) (impute data)"
  have r: "repair rng (impute data) = Inr ?df"
    unfolding num_repaired_def by (rule repair_eq [OF burn_imputed_eq [OF assms]])
  have n: "(\<exists>c \<in> set (map snd ?df). None \<in> set c)
             \<longleftrightarrow> (\<exists>c \<in> set (map snd (impute data)). None \<in> set c)"
    by (force simp add: loc_assign_None split: if_splits)
  have m: "map (\<lambda>(n, c). (n, map (\<lambda>p. trunc (the p)) c)) ?df
             = map (\<lambda>(n, c). (n, map (\<lambda>p. trunc (the p)) (?g n c))) (impute data)"
    by (simp add: case_prod_beta comp_def)
  have "downloadRaster_table rng img = astype_int_df ?df"
    using assms r by (simp add: downloadRaster_table_def)
  also have "\<dots> = (if \<exists>c \<in> set (map snd (impute data)). None \<in> set c then Inl ValueError
      else Inr (map (\<lambda>(n, c). (n, map (\<lambda>p. trunc (the p)) (?g n c))) (impute data)))"
    unfolding astype_int_df_eq n m by simp
  finally show ?thesis by simp
qed

lemma table_Inr:
  assumes r: "read_columns img = Inr data" and ok: "downloadRaster_table rng img = Inr tbl"
  shows "\<forall>c \<in> set (map snd (impute data)). None \<notin> set c"
    and "tbl = map (\<lambda>(n, c).
                  (n, map (\<lambda>p. trunc (the p))
                        (if n = ''burnSeverity''
                         then loc_assign c (imputeValues rng (num_repaired img))
                         else c))) (impute data)"
    and "map_of tbl ''burnSeverity'' =
           Some (map (\<lambda>p. trunc (the p))
                  (loc_assign (burn_imputed img) (imputeValues rng (num_repaired img))))"
proof -
  note e = table_eq [OF r, of rng]
  show n: "\<forall>c \<in> set (map snd (impute data)). None \<notin> set c"
  proof (rule ccontr)
    assume "\<not> (\<forall>c \<in> set (map snd (impute data)). None \<notin> set c)"
    then have "downloadRaster_table rng img = Inl ValueError" using e by auto
    then show False using ok by simp
  qed
  then have "\<not> (\<exists>c \<in> set (map snd (impute data)). None \<in> set c)" by blast
  then show t: "tbl = map (\<lambda>(n, c).
                  (n, map (\<lambda>p. trunc (the p))
                        (if n = ''burnSeverity''
                         then loc_assign c (imputeValues rng (num_repaired img))
                         else c))) (impute data)"
    using e ok by simp
  show "map_of tbl ''burnSeverity'' =
           Some (map (\<lambda>p. trunc (the p))
                  (loc_assign (burn_imputed img) (imputeValues rng (num_repaired img))))"
    unfolding t map_of_map_keyed burn_imputed_eq [OF r] by simp
qed





subsection \<open>The pixel table, its determinism and the band order\<close>

lemmas table_defs =
  downloadRaster_table_def read_columns_def colNames_def enumerate_eq_zip flatten_def
  impute_def fillna_def mean_def present_def List.map_filter_simps round2_def rint_def
  repair_def le0_def imputeValues_def sample1_def draws_from_def trunc_def Let_def
  single_row_def upt_rec







text \<open>
  C6. The bands assembled by \<^verbatim>\<open>prepImages\<close> are, in order, the seven reflectance bands
  SR_B1..SR_B7, then burnSeverity, dNBR, NDVI, elevation, percent_tree_cover, landCover
  and landCoverViz (for the Landsat collection, and for any composite whose bands
  matching \<^verbatim>\<open>SR_B.\<close> are these seven); this is the list \<^verbatim>\<open>colNames\<close> of the converter,
  entry by entry, for all 14 entries, which are distinct. The column the converter keys
  by the name at index i is the flattened band at index i, and the columns of the table
  carry the same names in the same order.
\<close>

theorem band_order_round_trip:
  "prepImages_bands LC08_C02_T1_L2
     = Some [''SR_B1'', ''SR_B2'', ''SR_B3'', ''SR_B4'', ''SR_B5'', ''SR_B6'', ''SR_B7'',
             ''burnSeverity'', ''dNBR'', ''NDVI'', ''elevation'',
             ''percent_tree_cover'', ''landCover'', ''landCoverViz'']
   \<and> (select_SR_B postFireImage
         = [''SR_B1'', ''SR_B2'', ''SR_B3'', ''SR_B4'', ''SR_B5'', ''SR_B6'', ''SR_B7'']
        \<longrightarrow> prepImages_bands postFireImage = Some colNames)
   \<and> prepImages_bands LC08_C02_T1_L2 = Some colNames
   \<and> length colNames = 14
   \<and> distinct colNames
   \<and> (read_columns img = Inr data \<longrightarrow>
        map fst data = colNames
        \<and> (\<forall>i < 14. data ! i = (colNames ! i, flatten (bands img ! i))))
   \<and> (downloadRaster_table rng img = Inr tbl \<longrightarrow> map fst tbl = colNames)"
proof -
  have a: "prepImages_bands LC08_C02_T1_L2
     = Some [''SR_B1'', ''SR_B2'', ''SR_B3'', ''SR_B4'', ''SR_B5'', ''SR_B6'', ''SR_B7'',
             ''burnSeverity'', ''dNBR'', ''NDVI'', ''elevation'',
             ''percent_tree_cover'', ''landCover'', ''landCoverViz'']"
    by (simp add: prepImages_bands_def LC08_C02_T1_L2_def select_SR_B_def matches_SR_B_def
        addBands_def)
  then have b: "prepImages_bands LC08_C02_T1_L2 = Some colNames"
    by (simp add: colNames_def)
  have g: "select_SR_B postFireImage
         = [''SR_B1'', ''SR_B2'', ''SR_B3'', ''SR_B4'', ''SR_B5'', ''SR_B6'', ''SR_B7'']
        \<longrightarrow> prepImages_bands postFireImage = Some colNames"
    by (simp add: prepImages_bands_def addBands_def colNames_def)
  have c: "read_columns img = Inr data \<longrightarrow>
        map fst data = colNames
        \<and> (\<forall>i < 14. data ! i = (colNames ! i, flatten (bands img ! i)))"
    using read_columns_Inr(1) read_columns_Inr(4) by blast
  have d: "downloadRaster_table rng img = Inr tbl \<longrightarrow> map fst tbl = colNames"
  proof
    assume ok: "downloadRaster_table rng img = Inr tbl"
    obtain data' where r: "read_columns img = Inr data'"
      using ok by (cases "read_columns img") (auto simp add: downloadRaster_table_def)
    show "map fst tbl = colNames"
      unfolding table_Inr(2) [OF r ok]
      using read_columns_Inr(1) [OF r] impute_names [of data']
      by (simp add: case_prod_beta comp_def)
  qed
  show ?thesis using a b g c d length_colNames distinct_colNames by blast
qed

theorem band_order_round_trip_witness:
  "read_columns (single_row [Some 2, None])
     = Inr [(''SR_B1'', [Some 0, Some 0]), (''SR_B2'', [Some 0, Some 0]),
            (''SR_B3'', [Some 0, Some 0]), (''SR_B4'', [Some 0, Some 0]),
            (''SR_B5'', [Some 0, Some 0]), (''SR_B6'', [Some 0, Some 0]),
            (''SR_B7'', [Some 0, Some 0]), (''burnSeverity'', [Some 2, None]),
            (''dNBR'', [Some 0, Some 0]), (''NDVI'', [Some 0, Some 0]),
            (''elevation'', [Some 0, Some 0]), (''percent_tree_cover'', [Some 0, Some 0]),
            (''landCover'', [Some 0, Some 0]), (''landCoverViz'', [Some 0, Some 0])]
   \<and> downloadRaster_table (draws_from [0]) (single_row [Some 2, None])
       = Inr [(''SR_B1'', [0, 0]), (''SR_B2'', [0, 0]), (''SR_B3'', [0, 0]),
              (''SR_B4'', [0, 0]), (''SR_B5'', [0, 0]), (''SR_B6'', [0, 0]),
              (''SR_B7'', [0, 0]), (''burnSeverity'', [2, 2]),
              (''dNBR'', [0, 0]), (''NDVI'', [0, 0]), (''elevation'', [0, 0]),
              (''percent_tree_cover'', [0, 0]), (''landCover'', [0, 0]),
              (''landCoverViz'', [0, 0])]
   \<and> colNames ! 7 = ''burnSeverity''
   \<and> flatten (bands (single_row [Some 2, None]) ! 7) = [Some 2, None]
   \<and> select_SR_B LC08_C02_T1_L2
       = [''SR_B1'', ''SR_B2'', ''SR_B3'', ''SR_B4'', ''SR_B5'', ''SR_B6'', ''SR_B7'']"
proof -
  let ?img = "single_row [Some 2, None]"
  have r: "read_columns ?img
     = Inr [(''SR_B1'', [Some 0, Some 0]), (''SR_B2'', [Some 0, Some 0]),
            (''SR_B3'', [Some 0, Some 0]), (''SR_B4'', [Some 0, Some 0]),
            (''SR_B5'', [Some 0, Some 0]), (''SR_B6'', [Some 0, Some 0]),
            (''SR_B7'', [Some 0, Some 0]), (''burnSeverity'', [Some 2, None]),
            (''dNBR'', [Some 0, Some 0]), (''NDVI'', [Some 0, Some 0]),
            (''elevation'', [Some 0, Some 0]), (''percent_tree_cover'', [Some 0, Some 0]),
            (''landCover'', [Some 0, Some 0]), (''landCoverViz'', [Some 0, Some 0])]"
    by (simp add: table_defs)
  have t: "downloadRaster_table (draws_from [0]) ?img
       = Inr [(''SR_B1'', [0, 0]), (''SR_B2'', [0, 0]), (''SR_B3'', [0, 0]),
              (''SR_B4'', [0, 0]), (''SR_B5'', [0, 0]), (''SR_B6'', [0, 0]),
              (''SR_B7'', [0, 0]), (''burnSeverity'', [2, 2]),
              (''dNBR'', [0, 0]), (''NDVI'', [0, 0]), (''elevation'', [0, 0]),
              (''percent_tree_cover'', [0, 0]), (''landCover'', [0, 0]),
              (''landCoverViz'', [0, 0])]"
    by (simp add: table_defs)
  have f: "flatten (bands ?img ! 7) = [Some 2, None]"
    by (simp add: single_row_def flatten_def Let_def)
  have sel: "select_SR_B LC08_C02_T1_L2
       = [''SR_B1'', ''SR_B2'', ''SR_B3'', ''SR_B4'', ''SR_B5'', ''SR_B6'', ''SR_B7'']"
    by (simp add: select_SR_B_def LC08_C02_T1_L2_def matches_SR_B_def)
  show ?thesis
    using r t f sel colNames_burn
      band_order_round_trip [where img = ?img and rng = "draws_from [0]"
        and postFireImage = LC08_C02_T1_L2]
    by blast
qed


section \<open>Properties of the metrics\<close>

lemmas metrics_defs =
  modelMetrics_def confusion_matrix_def unique_labels_def sum_axis0_def sum_axis1_def
  diag_def np_divide_def np_times_def np_plus_def percent_def fillna0_def bsMap_def
  round2_def rint_def Let_def upt_rec

text \<open>
  C2 (the code against the claim). Reference labels [2, 2, 3, 5] and predictions
  [2, 3, 3, 5], all drawn from 1..5: the matrix is built over the three classes that
  occur (2, 3 and 5), so it is 3 \<times> 3 before the totals, not 5 \<times> 5; its rows and columns
  are then named after classes 1, 2 and 3; and class 4, absent from both sequences, has
  no row in the metrics table rather than a row of zeros.
\<close>

theorem modelMetrics_absent_class:
  "modelMetrics [2, 2, 3, 5] [2, 3, 3, 5]
   = Inr (\<lparr>cm_columns = [''Vegetation Growth'', ''Unburned'', ''Low'', ''Predicted Total''],
           cm_index = [''Vegetation Growth'', ''Unburned'', ''Low'', ''Actual Total''],
           cm_cells = [[1, 1, 0, 2], [0, 1, 0, 1], [0, 0, 1, 1], [1, 2, 1, 0]]\<rparr>,
          [\<lparr>row_name = ''Vegetation Growth'', precision_pct = 100, recall_pct = 50,
             f1_pct = 6667 / 100\<rparr>,
           \<lparr>row_name = ''Unburned'', precision_pct = 50, recall_pct = 100,
             f1_pct = 6667 / 100\<rparr>,
           \<lparr>row_name = ''Low'', precision_pct = 100, recall_pct = 100, f1_pct = 100\<rparr>])"
  by (simp add: metrics_defs)


end
